theory Spec2Isabelle
  imports Complex_Main
begin

section \<open>Python values, errors and the platform calls\<close>

text \<open>
  The exceptions that the modelled code can raise or catch. \<open>IndexError\<close> is what
  \<open>show_checked_page\<close> catches (the specification calls it \<open>OutOfRange\<close>);
  \<open>TypeError\<close> is what Python raises for \<open>int >= None\<close>.
\<close>

datatype pyerror = IndexError | TypeError | AttributeError

text \<open>
  \<open>discord.Embed\<close>, reduced to the two fields the repository sets to fixed values. The
  colour (\<open>discord.Color.random()\<close>) and the timestamp (\<open>utcnow()\<close>) are left out.
\<close>

record embed =
  title :: string
  description :: string

datatype pyval = VNone | VStr string | VEmbed embed

text \<open>
  A Python \<open>dict\<close> with string keys, in insertion order and with unique keys:
  the keyword arguments handed to the platform.
\<close>

type_synonym kwargs = "(string \<times> pyval) list"

definition setdefault :: "string \<Rightarrow> pyval \<Rightarrow> kwargs \<Rightarrow> kwargs" where
  "setdefault k v d = (case map_of d k of None \<Rightarrow> d @ [(k, v)] | Some _ \<Rightarrow> d)"

text \<open>
  A call \<open>f(**kwargs, view=self, ephemeral=ephemeral)\<close> raises \<open>TypeError\<close> (multiple
  values for a keyword argument) before \<open>f\<close> runs when the dict has one of the keywords
  that the call also passes by name.
\<close>

definition clashes :: "string list \<Rightarrow> kwargs \<Rightarrow> bool" where
  "clashes keys d = list_ex (\<lambda>k. map_of d k \<noteq> None) keys"

text \<open>
  What \<open>format_page\<close> may return, as \<open>_get_kwargs_from_page\<close> tells the cases apart
  with \<open>isinstance\<close>: a dict, a str, an Embed, or anything else.
\<close>

datatype formatted = FDict kwargs | FStr string | FEmbed embed | FOther

text \<open>
  A \<open>menus.PageSource\<close>: the methods of the source that \<open>PaginationView\<close> calls.
  The class itself belongs to \<open>discord.ext.menus\<close>, so a source is a parameter here.
\<close>

record 'p source =
  get_max_pages :: "int option"
  is_paginating :: bool
  get_page :: "int \<Rightarrow> pyerror + 'p"
  format_page :: "'p \<Rightarrow> pyerror + formatted"

text \<open>The five buttons of \<open>PaginationView\<close>, named as its decorated methods.\<close>

datatype control =
  Go_to_first_page | Go_to_previous_page | Stop_pages | Go_to_next_page | Go_to_last_page

text \<open>
  \<open>self.interaction\<close>: a \<open>commands.Context\<close> (with \<open>author.id\<close>) or a
  \<open>discord.Interaction\<close> (with \<open>user.id\<close> and \<open>response.is_done()\<close>).
  \<open>embed_links\<close> is the value of
  \<open>channel.permissions_for(guild.me).embed_links\<close>.
\<close>

datatype invoker =
  Context (author_id: int) (embed_links: bool)
| Interaction (user_id: int) (embed_links: bool) (response_is_done: bool)

type_synonym msg = nat

text \<open>
  The state of a \<open>PaginationView\<close>: the attributes set in \<open>__init__\<close>, the
  \<open>disabled\<close> attribute of each button, the list \<open>children\<close> that \<open>add_item\<close>
  fills, and whether \<open>stop()\<close> was called.
\<close>

record 'p view =
  source :: "'p source"
  check_embeds :: bool
  interaction :: invoker
  message :: "msg option"
  current_page :: int
  compact_flag :: bool
  children :: "control list"
  go_to_first_page_disabled :: bool
  go_to_previous_page_disabled :: bool
  stop_pages_disabled :: bool
  go_to_next_page_disabled :: bool
  go_to_last_page_disabled :: bool
  stopped :: bool

fun disabled :: "'p view \<Rightarrow> control \<Rightarrow> bool" where
  "disabled v Go_to_first_page = go_to_first_page_disabled v"
| "disabled v Go_to_previous_page = go_to_previous_page_disabled v"
| "disabled v Stop_pages = stop_pages_disabled v"
| "disabled v Go_to_next_page = go_to_next_page_disabled v"
| "disabled v Go_to_last_page = go_to_last_page_disabled v"

fun set_disabled :: "control \<Rightarrow> bool \<Rightarrow> 'p view \<Rightarrow> 'p view" where
  "set_disabled Go_to_first_page b v = v\<lparr>go_to_first_page_disabled := b\<rparr>"
| "set_disabled Go_to_previous_page b v = v\<lparr>go_to_previous_page_disabled := b\<rparr>"
| "set_disabled Stop_pages b v = v\<lparr>stop_pages_disabled := b\<rparr>"
| "set_disabled Go_to_next_page b v = v\<lparr>go_to_next_page_disabled := b\<rparr>"
| "set_disabled Go_to_last_page b v = v\<lparr>go_to_last_page_disabled := b\<rparr>"

text \<open>
  \<open>view=self\<close> in a platform call: the attached controls with their \<open>disabled\<close>
  state at the moment of the call.
\<close>

type_synonym attached = "(control \<times> bool) list"

definition view_of :: "'p view \<Rightarrow> attached" where
  "view_of v = map (\<lambda>c. (c, disabled v c)) (children v)"

text \<open>
  The calls to the platform that the view makes, in order. A send carries its keyword
  arguments, the view when \<open>view=self\<close> is passed, and the \<open>ephemeral\<close> flag.
\<close>

datatype call =
  Response_send_message kwargs "attached option" bool
| Followup_send kwargs "attached option" bool
| Context_send kwargs "attached option" bool
| Message_edit msg kwargs attached
| Response_edit_message kwargs attached
| Response_defer
| Delete_original_response

text \<open>
  The \<open>discord.Interaction\<close> of a button press: \<open>interaction.user\<close> (its id, or
  \<open>None\<close>) and \<open>interaction.response.is_done()\<close>.
\<close>

record press =
  user :: "int option"
  is_done :: bool

section \<open>PaginationView\<close>

subsection \<open>Construction\<close>

definition fill_items :: "'p view \<Rightarrow> 'p view" where
  "fill_items v =
     (if is_paginating (source v) then
        v\<lparr>children := children v
             @ (if \<not> compact_flag v then [Go_to_first_page] else [])
             @ [Go_to_previous_page, Stop_pages, Go_to_next_page]
             @ (if \<not> compact_flag v then [Go_to_last_page] else [])\<rparr>
      else v)"

text \<open>\<open>__init__\<close>, with \<open>check_embeds\<close> and \<open>compact\<close> passed explicitly.\<close>

definition init :: "'p source \<Rightarrow> invoker \<Rightarrow> bool \<Rightarrow> bool \<Rightarrow> 'p view" where
  "init src ia chk cmp =
     fill_items
       \<lparr>source = src, check_embeds = chk, interaction = ia, message = None,
        current_page = 0, compact_flag = cmp, children = [],
        go_to_first_page_disabled = False, go_to_previous_page_disabled = False,
        stop_pages_disabled = False, go_to_next_page_disabled = False,
        go_to_last_page_disabled = False, stopped = False\<rparr>"

subsection \<open>\<open>_get_kwargs_from_page\<close>\<close>

definition get_kwargs_from_page :: "'p view \<Rightarrow> 'p \<Rightarrow> pyerror + kwargs" where
  "get_kwargs_from_page v page =
     (case format_page (source v) page of
        Inl e \<Rightarrow> Inl e
      | Inr (FDict d) \<Rightarrow> Inr d
      | Inr (FStr s) \<Rightarrow> Inr [(''content'', VStr s), (''embed'', VNone)]
      | Inr (FEmbed e) \<Rightarrow> Inr [(''embed'', VEmbed e), (''content'', VNone)]
      | Inr FOther \<Rightarrow> Inr [])"

subsection \<open>\<open>_update_labels\<close>, in its two versions\<close>

text \<open>
  \<open>src/pagination.py\<close>, lines 64 to 85. It raises nothing. In compact mode it returns
  after setting First, Next and Previous; otherwise Next and Previous are first enabled
  and everything else happens only when \<open>max_pages is not None\<close>.
\<close>

definition update_labels_pagination :: "int \<Rightarrow> 'p view \<Rightarrow> 'p view" where
  "update_labels_pagination page_number v =
     (let v = v\<lparr>go_to_first_page_disabled := (page_number = 0)\<rparr> in
      if compact_flag v then
        (let max_pages = get_max_pages (source v);
             v = v\<lparr>go_to_next_page_disabled :=
                     (case max_pages of None \<Rightarrow> False | Some m \<Rightarrow> page_number + 1 \<ge> m)\<rparr>;
             v = v\<lparr>go_to_previous_page_disabled := (page_number = 0)\<rparr>
         in v)
      else
        (let v = v\<lparr>go_to_next_page_disabled := False\<rparr>;
             v = v\<lparr>go_to_previous_page_disabled := False\<rparr>;
             max_pages = get_max_pages (source v)
         in case max_pages of
              None \<Rightarrow> v
            | Some m \<Rightarrow>
                (let v = v\<lparr>go_to_last_page_disabled := (page_number + 1 \<ge> m)\<rparr>;
                     v = (if page_number + 1 \<ge> m
                          then v\<lparr>go_to_next_page_disabled := True\<rparr> else v);
                     v = (if page_number = 0
                          then v\<lparr>go_to_previous_page_disabled := True,
                                 go_to_first_page_disabled := True\<rparr>
                          else v)
                 in v)))"

text \<open>
  \<open>src/main.py\<close>, lines 80 to 86. In non-compact mode the last line compares
  \<open>page_number + 1 >= max_pages\<close> without testing for \<open>None\<close>, which raises
  \<open>TypeError\<close> after the three earlier assignments have been made.
\<close>

definition update_labels_main :: "int \<Rightarrow> 'p view \<Rightarrow> pyerror option \<times> 'p view" where
  "update_labels_main page_number v =
     (let v = v\<lparr>go_to_first_page_disabled := (page_number = 0)\<rparr>;
          max_pages = get_max_pages (source v);
          v = v\<lparr>go_to_next_page_disabled :=
                  (case max_pages of None \<Rightarrow> False | Some m \<Rightarrow> page_number + 1 \<ge> m)\<rparr>;
          v = v\<lparr>go_to_previous_page_disabled := (page_number = 0)\<rparr>
      in if \<not> compact_flag v then
           (case max_pages of
              None \<Rightarrow> (Some TypeError, v)
            | Some m \<Rightarrow> (None, v\<lparr>go_to_last_page_disabled := (page_number + 1 \<ge> m)\<rparr>))
         else (None, v))"

text \<open>The enablement of the five controls, in the order First, Previous, Quit, Next, Last.\<close>

definition enablement :: "'p view \<Rightarrow> bool list" where
  "enablement v = map (disabled v)
     [Go_to_first_page, Go_to_previous_page, Stop_pages, Go_to_next_page, Go_to_last_page]"

subsection \<open>Showing a page\<close>

text \<open>
  Every operation returns the exception that escapes it (if any), the view as the
  operation leaves it (assignments made before a raise persist), and the platform calls
  made. The two source files differ only in \<open>_update_labels\<close>, so the operations
  take it as the parameter \<open>upd\<close>. Both edits pass \<open>**kwargs, view=self\<close>, so a
  page whose dict has the key \<open>view\<close> raises \<open>TypeError\<close> at the call. Which other
  keys \<open>edit\<close> and \<open>edit_message\<close> accept is decided by \<open>discord.py\<close>.
\<close>

type_synonym 'p outcome = "pyerror option \<times> 'p view \<times> call list"

type_synonym 'p labels = "int \<Rightarrow> 'p view \<Rightarrow> pyerror option \<times> 'p view"

definition labels_pagination :: "'p labels" where
  "labels_pagination page_number v = (None, update_labels_pagination page_number v)"

definition labels_main :: "'p labels" where
  "labels_main = update_labels_main"

definition show_page :: "'p labels \<Rightarrow> 'p view \<Rightarrow> press \<Rightarrow> int \<Rightarrow> 'p outcome" where
  "show_page upd v click page_number =
     (case get_page (source v) page_number of
        Inl e \<Rightarrow> (Some e, v, [])
      | Inr page \<Rightarrow>
          (let v = v\<lparr>current_page := page_number\<rparr> in
           case get_kwargs_from_page v page of
             Inl e \<Rightarrow> (Some e, v, [])
           | Inr kwargs \<Rightarrow>
               (case upd page_number v of
                  (Some e, v) \<Rightarrow> (Some e, v, [])
                | (None, v) \<Rightarrow>
                    if kwargs \<noteq> [] then
                      (if is_done click then
                         (case message v of
                            Some m \<Rightarrow>
                              if clashes [''view''] kwargs then (Some TypeError, v, [])
                              else (None, v, [Message_edit m kwargs (view_of v)])
                          | None \<Rightarrow> (None, v, []))
                       else
                         if clashes [''view''] kwargs then (Some TypeError, v, [])
                         else (None, v, [Response_edit_message kwargs (view_of v)]))
                    else (None, v, []))))"

text \<open>\<open>except IndexError: pass\<close>.\<close>

fun except_IndexError :: "'p outcome \<Rightarrow> 'p outcome" where
  "except_IndexError (Some IndexError, v, cs) = (None, v, cs)"
| "except_IndexError r = r"

definition show_checked_page :: "'p labels \<Rightarrow> 'p view \<Rightarrow> press \<Rightarrow> int \<Rightarrow> 'p outcome" where
  "show_checked_page upd v click page_number =
     (let max_pages = get_max_pages (source v) in
      case max_pages of
        None \<Rightarrow> except_IndexError (show_page upd v click page_number)
      | Some m \<Rightarrow>
          if m > page_number \<and> page_number \<ge> 0
          then except_IndexError (show_page upd v click page_number)
          else (None, v, []))"

subsection \<open>\<open>interaction_check\<close>\<close>

text \<open>\<open>self.interaction.author.id\<close> for a Context, \<open>self.interaction.user.id\<close> otherwise.\<close>

fun predicate :: "invoker \<Rightarrow> int" where
  "predicate (Context a _) = a"
| "predicate (Interaction u _ _) = u"

definition interaction_check :: "'p view \<Rightarrow> press \<Rightarrow> bool \<times> 'p view \<times> call list" where
  "interaction_check v click =
     (case user click of
        Some uid \<Rightarrow>
          if uid = predicate (interaction v) then (True, v, [])
          else (False, v,
                [Response_send_message [(''content'', VStr ''This menu is not for you.'')] None True])
      | None \<Rightarrow>
          (False, v,
           [Response_send_message [(''content'', VStr ''This menu is not for you.'')] None True]))"

subsection \<open>\<open>on_timeout\<close> and the Quit button\<close>

definition on_timeout :: "'p view \<Rightarrow> 'p outcome" where
  "on_timeout v =
     (case message v of
        Some m \<Rightarrow>
          (let v = fold (\<lambda>child. set_disabled child True) (children v) v
           in (None, v, [Message_edit m [] (view_of v)]))
      | None \<Rightarrow> (None, v, []))"

text \<open>
  \<open>stop_pages\<close>: defer, delete the original response, \<open>self.stop()\<close>. It does not
  assign \<open>self.message\<close>.
\<close>

definition stop_pages :: "'p view \<Rightarrow> 'p outcome" where
  "stop_pages v = (None, v\<lparr>stopped := True\<rparr>, [Response_defer, Delete_original_response])"

subsection \<open>The navigation buttons\<close>

definition go_to_first_page :: "'p labels \<Rightarrow> 'p view \<Rightarrow> press \<Rightarrow> 'p outcome" where
  "go_to_first_page upd v click = show_page upd v click 0"

definition go_to_previous_page :: "'p labels \<Rightarrow> 'p view \<Rightarrow> press \<Rightarrow> 'p outcome" where
  "go_to_previous_page upd v click =
     show_checked_page upd v click (current_page v - 1)"

definition go_to_next_page :: "'p labels \<Rightarrow> 'p view \<Rightarrow> press \<Rightarrow> 'p outcome" where
  "go_to_next_page upd v click =
     show_checked_page upd v click (current_page v + 1)"

text \<open>\<open>self.source.get_max_pages() - 1\<close> raises \<open>TypeError\<close> on \<open>None\<close>.\<close>

definition go_to_last_page :: "'p labels \<Rightarrow> 'p view \<Rightarrow> press \<Rightarrow> 'p outcome" where
  "go_to_last_page upd v click =
     (case get_max_pages (source v) of
        None \<Rightarrow> (Some TypeError, v, [])
      | Some m \<Rightarrow> show_page upd v click (m - 1))"

subsection \<open>\<open>start\<close>\<close>

text \<open>
  \<open>start(content=..., ephemeral=...)\<close>. The argument \<open>m\<close> is the message that the
  platform returns for the send. \<open>source._prepare_once()\<close> belongs to
  \<open>discord.ext.menus\<close> and touches the source only; it is left out.
  In the permission branch only the \<open>discord.Interaction\<close> case returns.
  A page whose dict has one of the keywords of the send raises \<open>TypeError\<close> at the
  call, after the labels were updated and before a message is recorded.
\<close>

definition denial :: kwargs where
  "denial = [(''content'', VStr ''Missing embed permissions.'')]"

fun is_Interaction :: "invoker \<Rightarrow> bool" where
  "is_Interaction (Interaction _ _ _) = True"
| "is_Interaction (Context _ _) = False"

text \<open>
  The keywords that the send of \<open>start\<close> passes by name next to \<open>**kwargs\<close>:
  \<open>view\<close> and \<open>ephemeral\<close> for \<open>response.send_message\<close> and for the send of a
  Context, \<open>wait\<close> and \<open>ephemeral\<close> for \<open>followup.send\<close>.
\<close>

fun send_keywords :: "invoker \<Rightarrow> string list" where
  "send_keywords (Interaction _ _ responded) =
     (if \<not> responded then [''view'', ''ephemeral''] else [''wait'', ''ephemeral''])"
| "send_keywords (Context _ _) = [''view'', ''ephemeral'']"

definition start ::
  "'p labels \<Rightarrow> 'p view \<Rightarrow> string option \<Rightarrow> bool \<Rightarrow> msg \<Rightarrow> 'p outcome" where
  "start upd v content ephemeral m =
     (let missing = (check_embeds v \<and> \<not> embed_links (interaction v)) in
      if missing \<and> is_Interaction (interaction v) then
        (None, v, [Response_send_message denial None True])
      else
        (let calls = (if missing then [Context_send denial None True] else []) in
         case get_page (source v) 0 of
           Inl e \<Rightarrow> (Some e, v, calls)
         | Inr page \<Rightarrow>
             (case get_kwargs_from_page v page of
                Inl e \<Rightarrow> (Some e, v, calls)
              | Inr kwargs \<Rightarrow>
                  (let kwargs = (case content of
                                   None \<Rightarrow> kwargs
                                 | Some c \<Rightarrow> if c \<noteq> [] then setdefault ''content'' (VStr c) kwargs
                                            else kwargs)
                   in case upd 0 v of
                        (Some e, v) \<Rightarrow> (Some e, v, calls)
                      | (None, v) \<Rightarrow>
                          if clashes (send_keywords (interaction v)) kwargs then
                            (Some TypeError, v, calls)
                          else
                            (case interaction v of
                               Interaction _ _ responded \<Rightarrow>
                                 if \<not> responded then
                                   (None, v\<lparr>message := Some m\<rparr>,
                                    calls @ [Response_send_message kwargs (Some (view_of v))
                                               ephemeral])
                                 else
                                   (None, v\<lparr>message := Some m\<rparr>,
                                    calls @ [Followup_send kwargs None ephemeral])
                             | Context _ _ \<Rightarrow>
                                 (None, v\<lparr>message := Some m\<rparr>,
                                  calls @ [Context_send kwargs (Some (view_of v)) ephemeral]))))))"

section \<open>The guild list\<close>

subsection \<open>The list page source\<close>

text \<open>
  Modelled from the spec: \<open>menus.ListPageSource\<close>, the base class of
  \<open>GuildMenuPageSource\<close>. Its \<open>__init__\<close>, \<open>get_max_pages\<close>, \<open>get_page\<close> and
  \<open>is_paginating\<close> belong to \<open>discord.ext.menus\<close> and are not in the repository;
  the three definitions below follow section 4.1 of the specification. The page count
  is \<open>ceil(len(items) / perPage)\<close>, computed on the naturals.
\<close>

definition list_get_max_pages :: "'a list \<Rightarrow> nat \<Rightarrow> int" where
  "list_get_max_pages entries per_page = int ((length entries + per_page - 1) div per_page)"

text \<open>
  Modelled from the spec: \<open>getPage\<close> fails with \<open>OutOfRange\<close> (the \<open>IndexError\<close>
  that \<open>show_checked_page\<close> catches) if the page number is negative, or if
  \<open>pageNumber * perPage >= len(items)\<close> and \<open>len(items) > 0\<close>; otherwise it returns the
  slice \<open>items[pageNumber * perPage : (pageNumber + 1) * perPage]\<close>, which is empty for
  an empty collection.
\<close>

definition list_get_page :: "'a list \<Rightarrow> nat \<Rightarrow> int \<Rightarrow> pyerror + 'a list" where
  "list_get_page entries per_page page_number =
     (if page_number < 0
         \<or> (page_number * int per_page \<ge> int (length entries) \<and> length entries > 0)
      then Inl IndexError
      else Inr (take per_page (drop (nat page_number * per_page) entries)))"

text \<open>Modelled from the spec: \<open>isPaginating\<close> is true iff \<open>pageCount > 1\<close>.\<close>

definition list_is_paginating :: "'a list \<Rightarrow> nat \<Rightarrow> bool" where
  "list_is_paginating entries per_page = (list_get_max_pages entries per_page > 1)"

subsection \<open>\<open>GuildMenuPageSource.format_page\<close>\<close>

text \<open>
  A guild, with its name and the urls of its invites (\<open>await guild.invites()\<close>).
  An entry is \<open>(guild, invite_link)\<close>; the second component is a \<open>str\<close> or \<open>None\<close>,
  and an f-string formats \<open>None\<close> as \<open>None\<close>.
\<close>

record guild =
  name :: string
  invites :: "string list"

type_synonym entry = "guild \<times> string option"

fun py_str :: "string option \<Rightarrow> string" where
  "py_str None = ''None''"
| "py_str (Some s) = s"

text \<open>\<open>sep.join(xs)\<close>.\<close>

fun join :: "string \<Rightarrow> string list \<Rightarrow> string" where
  "join sep [] = []"
| "join sep [x] = x"
| "join sep (x # y # ys) = x @ sep @ join sep (y # ys)"

definition newline :: char where
  "newline = CHR 0x0A"

text \<open>
  \<open>src/main.py\<close>, lines 209 to 215. \<open>self.embed\<close> was built in \<open>__init__\<close> with the
  title \<open>Server List\<close>; \<open>x or y\<close> takes \<open>y\<close> when \<open>x\<close> is the empty string.
\<close>

definition format_page_main :: "entry list \<Rightarrow> embed" where
  "format_page_main entries =
     (let entries_embed = map (\<lambda>entry. name (fst entry) @ '': '' @ py_str (snd entry)) entries;
          joined = join [newline, newline] entries_embed
      in \<lparr>title = ''Server List'',
          description = (if joined = [] then ''No guilds were found.'' else joined)\<rparr>)"

text \<open>
  \<open>src/menu.py\<close>, lines 12 to 18. The loop evaluates \<open>entry[1].invite\<close>, which raises
  \<open>AttributeError\<close> on a \<open>str\<close> or \<open>None\<close>; after the loop the code joins \<open>entries\<close>
  (the tuples) instead of \<open>entries_embed\<close>. Only an empty slice gets through.
\<close>

definition format_page_menu :: "entry list \<Rightarrow> pyerror + embed" where
  "format_page_menu entries =
     (case entries of
        [] \<Rightarrow> Inr \<lparr>title = ''Server List'', description = ''No guilds were found.''\<rparr>
      | _ # _ \<Rightarrow> Inl AttributeError)"

definition GuildMenuPageSource :: "entry list \<Rightarrow> nat \<Rightarrow> entry list source" where
  "GuildMenuPageSource data per_page =
     \<lparr>get_max_pages = Some (list_get_max_pages data per_page),
      is_paginating = list_is_paginating data per_page,
      get_page = list_get_page data per_page,
      format_page = (\<lambda>entries. Inr (FEmbed (format_page_main entries)))\<rparr>"

subsection \<open>\<open>servers_command\<close>\<close>

text \<open>
  \<open>src/main.py\<close>, lines 217 to 236: the entries are built with the invite link already
  replaced by \<open>No invite available\<close> when the guild has no invite.
\<close>

definition guilds_data :: "guild list \<Rightarrow> entry list" where
  "guilds_data guilds =
     map (\<lambda>guild. (guild, Some (case invites guild of
                                  [] \<Rightarrow> ''No invite available''
                                | url # _ \<Rightarrow> url))) guilds"

definition servers_command ::
  "int \<Rightarrow> bool \<Rightarrow> guild list \<Rightarrow> msg \<Rightarrow> entry list outcome option" where
  "servers_command author can_embed guilds m =
     (if author \<noteq> 1169487822344962060 then None
      else
        (let src = GuildMenuPageSource (guilds_data guilds) 5;
             pv = init src (Context author can_embed) True False
         in Some (start labels_main pv (Some ''Here are the servers I'm in:'') True m)))"

section \<open>Example sources\<close>

text \<open>
  Three small sources over page numbers, used to run the operations on concrete inputs:
  three pages with a known count, the same pages with an unknown count (the source
  signals the end by \<open>IndexError\<close>), and a source whose \<open>format_page\<close> returns a value
  that is neither a dict, a str nor an Embed.
\<close>

definition three_pages :: "int \<Rightarrow> pyerror + int" where
  "three_pages n = (if 0 \<le> n \<and> n < 3 then Inr n else Inl IndexError)"

definition page_text :: "int \<Rightarrow> pyerror + formatted" where
  "page_text p = Inr (FStr ''page'')"

definition page_other :: "int \<Rightarrow> pyerror + formatted" where
  "page_other p = Inr FOther"

definition known_source :: "int source" where
  "known_source =
     \<lparr>get_max_pages = Some 3, is_paginating = True,
      get_page = three_pages, format_page = page_text\<rparr>"

definition unknown_source :: "int source" where
  "unknown_source =
     \<lparr>get_max_pages = None, is_paginating = True,
      get_page = three_pages, format_page = page_text\<rparr>"

definition other_source :: "int source" where
  "other_source =
     \<lparr>get_max_pages = Some 3, is_paginating = True,
      get_page = three_pages, format_page = page_other\<rparr>"

text \<open>Two sources whose pages are dicts: without the key \<open>content\<close>, and with the key \<open>view\<close>.\<close>

definition page_dict :: "int \<Rightarrow> pyerror + formatted" where
  "page_dict p = Inr (FDict [(''embed'', VNone)])"

definition page_view_dict :: "int \<Rightarrow> pyerror + formatted" where
  "page_view_dict p = Inr (FDict [(''view'', VNone)])"

definition dict_source :: "int source" where
  "dict_source =
     \<lparr>get_max_pages = Some 3, is_paginating = True,
      get_page = three_pages, format_page = page_dict\<rparr>"

definition view_dict_source :: "int source" where
  "view_dict_source =
     \<lparr>get_max_pages = Some 3, is_paginating = True,
      get_page = three_pages, format_page = page_view_dict\<rparr>"

definition alpha_beta :: "guild list" where
  "alpha_beta =
     [\<lparr>name = ''Alpha'', invites = [''http://inv/1'']\<rparr>, \<lparr>name = ''Beta'', invites = []\<rparr>]"

text \<open>A view that was started (the platform returned message 7) and then quit.\<close>

definition after_stop :: "int view" where
  "after_stop =
     fst (snd (stop_pages (fst (snd
       (start labels_pagination (init known_source (Context 1 True) True False) None False 7)))))"

text \<open>The keyword arguments of a platform call.\<close>

fun call_kwargs :: "call \<Rightarrow> kwargs" where
  "call_kwargs (Response_send_message kw _ _) = kw"
| "call_kwargs (Followup_send kw _ _) = kw"
| "call_kwargs (Context_send kw _ _) = kw"
| "call_kwargs (Message_edit _ kw _) = kw"
| "call_kwargs (Response_edit_message kw _) = kw"
| "call_kwargs Response_defer = []"
| "call_kwargs Delete_original_response = []"

section \<open>Auxiliary facts\<close>

lemma fields_update_labels_pagination:
  "interaction (update_labels_pagination p v) = interaction v
   \<and> message (update_labels_pagination p v) = message v
   \<and> current_page (update_labels_pagination p v) = current_page v"
  by (simp add: update_labels_pagination_def Let_def split: option.splits)

lemma fields_update_labels_main:
  "interaction (snd (update_labels_main p v)) = interaction v
   \<and> message (snd (update_labels_main p v)) = message v
   \<and> current_page (snd (update_labels_main p v)) = current_page v"
  by (simp add: update_labels_main_def Let_def split: option.splits)

lemma interaction_labels:
  "upd = labels_pagination \<or> upd = labels_main \<Longrightarrow> interaction (snd (upd p w)) = interaction w"
  by (auto simp: labels_pagination_def labels_main_def fields_update_labels_pagination
      fields_update_labels_main)

lemma update_labels_main_known_or_compact:
  "get_max_pages (source v) \<noteq> None \<or> compact_flag v \<Longrightarrow>
     update_labels_main p v = (None, update_labels_pagination p v)"
  by (auto simp: update_labels_main_def update_labels_pagination_def Let_def
      split: option.splits)

lemma view_except_IndexError: "fst (snd (except_IndexError r)) = fst (snd r)"
  by (cases r rule: except_IndexError.cases) simp_all

lemma interaction_show_page:
  assumes "\<And>w. interaction (snd (upd n w)) = interaction w"
  shows "interaction (fst (snd (show_page upd v click n))) = interaction v"
proof -
  let ?w = "v\<lparr>current_page := n\<rparr>"
  have "interaction (snd (upd n ?w)) = interaction v"
    using assms [of ?w] by simp
  then show ?thesis
    by (cases "upd n ?w")
       (auto simp: show_page_def Let_def split: sum.splits option.splits)
qed

lemma interaction_start:
  assumes "\<And>w. interaction (snd (upd 0 w)) = interaction w"
  shows "interaction (fst (snd (start upd v content ephemeral m))) = interaction v"
proof -
  have "interaction (snd (upd 0 v)) = interaction v"
    using assms [of v] by simp
  then show ?thesis
    by (cases "upd 0 v"; cases "interaction v")
       (auto simp: start_def Let_def split: sum.splits option.splits)
qed

text \<open>
  What \<open>show_page\<close> does when the source returns a page, the page gives keyword
  arguments without the key \<open>view\<close>, and the labels are updated without an error.
\<close>

lemma show_page_shown:
  assumes "get_page (source v) n = Inr page"
    and "get_kwargs_from_page v page = Inr kw"
    and "\<not> clashes [''view''] kw"
    and "upd n (v\<lparr>current_page := n\<rparr>) = (None, w)"
    and "message w = message v"
  shows "show_page upd v click n =
     (None, w,
      if kw = [] then []
      else if is_done click then
        (case message v of Some m \<Rightarrow> [Message_edit m kw (view_of w)] | None \<Rightarrow> [])
      else [Response_edit_message kw (view_of w)])"
proof -
  have "get_kwargs_from_page (v\<lparr>current_page := n\<rparr>) page = Inr kw"
    using assms(2) by (simp add: get_kwargs_from_page_def)
  then show ?thesis
    using assms(1,3,4,5)
    by (auto simp: show_page_def Let_def split: option.splits)
qed

lemma disabled_fold_set_disabled:
  "disabled (fold (\<lambda>child. set_disabled child True) cs v) c \<longleftrightarrow> c \<in> set cs \<or> disabled v c"
proof (induction cs arbitrary: v)
  case Nil
  then show ?case by simp
next
  case (Cons a cs)
  then show ?case by (cases a; cases c) auto
qed

lemma fields_fold_set_disabled:
  "children (fold (\<lambda>child. set_disabled child b) cs v) = children v
   \<and> message (fold (\<lambda>child. set_disabled child b) cs v) = message v
   \<and> current_page (fold (\<lambda>child. set_disabled child b) cs v) = current_page v
   \<and> interaction (fold (\<lambda>child. set_disabled child b) cs v) = interaction v
   \<and> stopped (fold (\<lambda>child. set_disabled child b) cs v) = stopped v"
proof (induction cs arbitrary: v)
  case Nil
  then show ?case by simp
next
  case (Cons a cs)
  then show ?case by (cases a) simp_all
qed

lemma join_not_empty:
  "xs \<noteq> [] \<Longrightarrow> hd xs \<noteq> [] \<Longrightarrow> join sep xs \<noteq> []"
  by (cases "(sep, xs)" rule: join.cases) simp_all

lemma description_format_page_main:
  "description (format_page_main entries) =
     (if entries = [] then ''No guilds were found.''
      else join [newline, newline]
             (map (\<lambda>entry. name (fst entry) @ '': '' @ py_str (snd entry)) entries))"
proof (cases entries)
  case Nil
  then show ?thesis by (simp add: format_page_main_def)
next
  case (Cons e es)
  then have "join [newline, newline]
      (map (\<lambda>entry. name (fst entry) @ '': '' @ py_str (snd entry)) entries) \<noteq> []"
    by (intro join_not_empty) simp_all
  with Cons show ?thesis by (simp add: format_page_main_def Let_def)
qed

text \<open>Rounding up on the integers, and the ceiling of the quotient on the reals.\<close>

lemma round_up_div_int:
  fixes n p :: int
  assumes "p > 0"
  shows "(n + p - 1) div p = - ((- n) div p)"
proof (cases "n mod p = 0")
  case True
  then have "n = p * (n div p)" by (simp add: mod_eq_0_iff_dvd)
  then obtain q where q: "n = p * q" ..
  have "(p * q + (p - 1)) div p = q + (p - 1) div p"
    using assms by (simp add: div_mult_self4)
  also have "(p - 1) div p = 0" using assms by (simp add: div_pos_pos_trivial)
  finally have "(n + p - 1) div p = q" using q by (simp add: algebra_simps)
  moreover have "(- n) div p = - q"
  proof -
    have "- n = p * (- q)" using q by simp
    then show ?thesis using assms by (simp only: nonzero_mult_div_cancel_left)
  qed
  ultimately show ?thesis by simp
next
  case False
  have "(- n) div p = - (n div p) - 1"
    using False assms by (simp add: zdiv_zminus1_eq_if)
  moreover have "(n + p - 1) div p = n div p + 1"
  proof -
    have "0 \<le> n mod p" and b: "n mod p < p"
      using assms by simp_all
    with False have r: "0 < n mod p" "n mod p < p"
      by simp_all
    have "n + p - 1 = p * (n div p + 1) + (n mod p - 1)"
      using mult_div_mod_eq [of p n] by (simp add: algebra_simps)
    then have "(n + p - 1) div p = (p * (n div p + 1) + (n mod p - 1)) div p"
      by (simp only:)
    also have "\<dots> = (n div p + 1) + (n mod p - 1) div p"
      using assms by (simp only: div_mult_self4)
    also have "(n mod p - 1) div p = 0" using r by (simp add: div_pos_pos_trivial)
    finally show ?thesis by simp
  qed
  ultimately show ?thesis by simp
qed

lemma ceiling_div_nat:
  fixes n p :: nat
  assumes "p \<ge> 1"
  shows "int ((n + p - 1) div p) = \<lceil>real n / real p\<rceil>"
proof -
  have "\<lceil>real n / real p\<rceil> = \<lceil>real_of_int (int n) / real_of_int (int p)\<rceil>" by simp
  also have "\<dots> = - ((- int n) div int p)" by (rule ceiling_divide_eq_div)
  also have "\<dots> = (int n + int p - 1) div int p"
    using assms round_up_div_int [of "int p" "int n"] by simp
  also have "\<dots> = int ((n + p - 1) div p)"
    using assms by (simp add: zdiv_int of_nat_diff)
  finally show ?thesis by simp
qed

text \<open>
  The permission branch of \<open>start\<close> for a \<open>discord.Interaction\<close>: one ephemeral denial,
  no page, no message recorded.
\<close>

lemma start_denied_interaction:
  "check_embeds v \<Longrightarrow> interaction v = Interaction u False r \<Longrightarrow>
     start upd v content ephemeral m = (None, v, [Response_send_message denial None True])"
  by (simp add: start_def)

text \<open>
  \<open>servers_command\<close> on two guilds: one page, no controls (the source does not paginate),
  and the content passed to \<open>start\<close> does not reach the message.
\<close>

lemma servers_command_alpha_beta:
  "map_option (\<lambda>r. snd (snd r)) (servers_command 1169487822344962060 True alpha_beta 7) =
     Some [Context_send
             [(''embed'', VEmbed \<lparr>title = ''Server List'',
                 description =
                   ''Alpha: http://inv/1'' @ [newline, newline] @ ''Beta: No invite available''\<rparr>),
              (''content'', VNone)]
             (Some []) True]"
  by (simp add: servers_command_def alpha_beta_def guilds_data_def GuildMenuPageSource_def
      list_get_max_pages_def list_is_paginating_def list_get_page_def init_def fill_items_def
      start_def get_kwargs_from_page_def format_page_main_def setdefault_def clashes_def
      labels_main_def update_labels_main_def view_of_def Let_def)

section \<open>The claims\<close>

subsection \<open>C1: what \<open>start\<close> sends\<close>

text \<open>
  C1. The start operation either produces a visible message with attached controls or a
  single ephemeral permission denial, never both; without the embed permission no page
  is rendered and no live message is created.

  The code does not do this when the view was built from a \<open>commands.Context\<close>: the
  permission branch sends the denial and, having no \<open>return\<close>, goes on to render page
  0, send it with the controls and record the message. The theorem runs \<open>start\<close> on
  such a view.
\<close>

theorem start_denied_context_sends_both:
  "start labels_main (init known_source (Context 1 False) True False) None False 7 =
     (None,
      (init known_source (Context 1 False) True False)
        \<lparr>message := Some 7, go_to_first_page_disabled := True,
         go_to_previous_page_disabled := True\<rparr>,
      [Context_send [(''content'', VStr ''Missing embed permissions.'')] None True,
       Context_send [(''content'', VStr ''page''), (''embed'', VNone)]
         (Some [(Go_to_first_page, True), (Go_to_previous_page, True), (Stop_pages, False),
                (Go_to_next_page, False), (Go_to_last_page, False)]) False])"
  by (simp add: start_def init_def fill_items_def known_source_def three_pages_def
      page_text_def get_kwargs_from_page_def denial_def clashes_def
      labels_main_def update_labels_main_def view_of_def)

subsection \<open>C2: the guarded jump\<close>

text \<open>
  C2, as the specification states it: with a known page count a target outside
  \<open>[0, pageCount - 1]\<close> leaves \<open>current_page\<close> unchanged and surfaces no error, and with
  an unknown page count any target \<open>n >= 0\<close> is accepted and performs the jump. The
  second half fails twice with an unknown page count. In \<open>src/main.py\<close>, non-compact
  mode, the jump to page 2 raises \<open>TypeError\<close> in \<open>_update_labels\<close> and the message is
  not edited. In \<open>src/pagination.py\<close> the source has no page 5 and raises
  \<open>IndexError\<close>, which is swallowed: nothing changes and nothing is sent.
\<close>

theorem show_checked_page_unknown_count_no_jump:
  "get_max_pages (source (init unknown_source (Context 1 True) True False)) = None
   \<and> fst (show_checked_page labels_main (init unknown_source (Context 1 True) True False)
        \<lparr>user = Some 1, is_done = False\<rparr> 2) = Some TypeError
   \<and> snd (snd (show_checked_page labels_main (init unknown_source (Context 1 True) True False)
        \<lparr>user = Some 1, is_done = False\<rparr> 2)) = []
   \<and> show_checked_page labels_pagination (init unknown_source (Context 1 True) True False)
        \<lparr>user = Some 1, is_done = False\<rparr> 5
      = (None, init unknown_source (Context 1 True) True False, [])"
  by (simp add: show_checked_page_def show_page_def init_def fill_items_def unknown_source_def
      three_pages_def page_text_def get_kwargs_from_page_def labels_main_def
      update_labels_main_def labels_pagination_def)

text \<open>
  C2, amended. With a known page count and a target outside \<open>[0, pageCount - 1]\<close>,
  \<open>show_checked_page\<close> leaves the view as it is (so \<open>current_page\<close> too), makes no
  platform call and raises nothing. With an unknown page count every target passes the
  guard, and in \<open>src/pagination.py\<close>, and in compact mode in \<open>src/main.py\<close>, the jump
  is performed whenever the source returns a page for the target and the page gives
  keyword arguments without the key \<open>view\<close>: \<open>current_page\<close> becomes the target, the
  labels are updated for it, the message is edited once with the page and the controls
  (through the response of the press, or through the recorded message when the press was
  already answered; not at all when the keyword arguments are empty), and nothing is
  raised. When the source raises \<open>IndexError\<close> for the target, the view is unchanged, no
  call is made and nothing is raised.
\<close>

theorem show_checked_page_guard:
  "(get_max_pages (source v) = Some m \<and> (n < 0 \<or> n \<ge> m) \<longrightarrow>
      show_checked_page upd v click n = (None, v, []))
   \<and> (get_max_pages (source v) = None
        \<and> (upd = labels_pagination \<or> upd = labels_main \<and> compact_flag v)
        \<and> get_page (source v) n = Inr page
        \<and> get_kwargs_from_page v page = Inr kw \<and> \<not> clashes [''view''] kw \<longrightarrow>
      show_checked_page upd v click n =
        (None, update_labels_pagination n (v\<lparr>current_page := n\<rparr>),
         if kw = [] then []
         else if is_done click then
           (case message v of
              Some msg \<Rightarrow>
                [Message_edit msg kw
                   (view_of (update_labels_pagination n (v\<lparr>current_page := n\<rparr>)))]
            | None \<Rightarrow> [])
         else [Response_edit_message kw
                 (view_of (update_labels_pagination n (v\<lparr>current_page := n\<rparr>)))])
      \<and> current_page (fst (snd (show_checked_page upd v click n))) = n)
   \<and> (get_max_pages (source v) = None \<and> get_page (source v) n = Inl IndexError \<longrightarrow>
      show_checked_page upd v click n = (None, v, []))"
proof (intro conjI impI)
  assume "get_max_pages (source v) = Some m \<and> (n < 0 \<or> n \<ge> m)"
  then show "show_checked_page upd v click n = (None, v, [])"
    by (auto simp: show_checked_page_def)
next
  assume "get_max_pages (source v) = None \<and> get_page (source v) n = Inl IndexError"
  then show "show_checked_page upd v click n = (None, v, [])"
    by (simp add: show_checked_page_def show_page_def)
next
  let ?w = "update_labels_pagination n (v\<lparr>current_page := n\<rparr>)"
  assume a: "get_max_pages (source v) = None
        \<and> (upd = labels_pagination \<or> upd = labels_main \<and> compact_flag v)
        \<and> get_page (source v) n = Inr page
        \<and> get_kwargs_from_page v page = Inr kw \<and> \<not> clashes [''view''] kw"
  then have "upd n (v\<lparr>current_page := n\<rparr>) = (None, ?w)"
    by (auto simp: labels_pagination_def labels_main_def
        update_labels_main_known_or_compact)
  moreover have "message ?w = message v"
    by (simp add: fields_update_labels_pagination)
  ultimately have "show_page upd v click n =
     (None, ?w,
      if kw = [] then []
      else if is_done click then
        (case message v of Some msg \<Rightarrow> [Message_edit msg kw (view_of ?w)] | None \<Rightarrow> [])
      else [Response_edit_message kw (view_of ?w)])"
    using a by (intro show_page_shown) auto
  with a show r: "show_checked_page upd v click n =
     (None, ?w,
      if kw = [] then []
      else if is_done click then
        (case message v of Some msg \<Rightarrow> [Message_edit msg kw (view_of ?w)] | None \<Rightarrow> [])
      else [Response_edit_message kw (view_of ?w)])"
    by (simp add: show_checked_page_def)
  show "current_page (fst (snd (show_checked_page upd v click n))) = n"
    by (simp add: r fields_update_labels_pagination)
qed

text \<open>
  The three parts at concrete inputs: page 3 of three pages is refused; with an unknown
  count \<open>src/pagination.py\<close> shows page 2 through the response of the press; page 5
  does not exist and nothing happens.
\<close>

theorem show_checked_page_guard_witness:
  "(get_max_pages (source (init known_source (Context 1 True) True False)) = Some 3
    \<and> ((3::int) < 0 \<or> (3::int) \<ge> 3)
    \<and> show_checked_page labels_main (init known_source (Context 1 True) True False)
         \<lparr>user = Some 1, is_done = False\<rparr> 3
        = (None, init known_source (Context 1 True) True False, []))
   \<and> (get_max_pages (source (init unknown_source (Context 1 True) True False)) = None
    \<and> get_page (source (init unknown_source (Context 1 True) True False)) 2 = Inr 2
    \<and> get_kwargs_from_page (init unknown_source (Context 1 True) True False) 2
        = Inr [(''content'', VStr ''page''), (''embed'', VNone)]
    \<and> \<not> clashes [''view''] [(''content'', VStr ''page''), (''embed'', VNone)]
    \<and> fst (show_checked_page labels_pagination (init unknown_source (Context 1 True) True False)
         \<lparr>user = Some 1, is_done = False\<rparr> 2) = None
    \<and> current_page (fst (snd (show_checked_page labels_pagination
         (init unknown_source (Context 1 True) True False)
         \<lparr>user = Some 1, is_done = False\<rparr> 2))) = 2
    \<and> snd (snd (show_checked_page labels_pagination
         (init unknown_source (Context 1 True) True False)
         \<lparr>user = Some 1, is_done = False\<rparr> 2))
        = [Response_edit_message [(''content'', VStr ''page''), (''embed'', VNone)]
             [(Go_to_first_page, False), (Go_to_previous_page, False), (Stop_pages, False),
              (Go_to_next_page, False), (Go_to_last_page, False)]])
   \<and> (get_page (source (init unknown_source (Context 1 True) True False)) 5 = Inl IndexError
    \<and> show_checked_page labels_pagination (init unknown_source (Context 1 True) True False)
         \<lparr>user = Some 1, is_done = False\<rparr> 5
        = (None, init unknown_source (Context 1 True) True False, []))"
proof -
  let ?k = "init known_source (Context 1 True) True False"
  let ?u = "init unknown_source (Context 1 True) True False"
  let ?c = "\<lparr>user = Some 1, is_done = False\<rparr>"
  let ?kw = "[(''content'', VStr ''page''), (''embed'', VNone)]"
  have k: "get_max_pages (source ?k) = Some 3"
    by (simp add: init_def fill_items_def known_source_def)
  have u: "get_max_pages (source ?u) = None"
    by (simp add: init_def fill_items_def unknown_source_def)
  have p: "get_page (source ?u) 2 = Inr 2" "get_page (source ?u) 5 = Inl IndexError"
    by (simp_all add: init_def fill_items_def unknown_source_def three_pages_def)
  have g: "get_kwargs_from_page ?u 2 = Inr ?kw"
    by (simp add: init_def fill_items_def unknown_source_def page_text_def
        get_kwargs_from_page_def)
  have n: "\<not> clashes [''view''] ?kw"
    by (simp add: clashes_def)
  have 1: "show_checked_page labels_main ?k ?c 3 = (None, ?k, [])"
    using show_checked_page_guard [THEN conjunct1, of ?k 3 3 labels_main ?c] k by simp
  have 2: "show_checked_page labels_pagination ?u ?c 2 =
      (None, update_labels_pagination 2 (?u\<lparr>current_page := 2\<rparr>),
       [Response_edit_message ?kw
          (view_of (update_labels_pagination 2 (?u\<lparr>current_page := 2\<rparr>)))])"
    using show_checked_page_guard [THEN conjunct2, THEN conjunct1,
        of ?u labels_pagination 2 2 ?kw ?c] u p g n
    by simp
  have v: "view_of (update_labels_pagination 2 (?u\<lparr>current_page := 2\<rparr>)) =
      [(Go_to_first_page, False), (Go_to_previous_page, False), (Stop_pages, False),
       (Go_to_next_page, False), (Go_to_last_page, False)]"
    by (simp add: view_of_def update_labels_pagination_def init_def fill_items_def
        unknown_source_def)
  have 3: "show_checked_page labels_pagination ?u ?c 5 = (None, ?u, [])"
    using show_checked_page_guard [THEN conjunct2, THEN conjunct2,
        of ?u 5 labels_pagination ?c] u p
    by simp
  show ?thesis
    using k u p g n 1 3 by (simp add: 2 v fields_update_labels_pagination)
qed

subsection \<open>C3: pages of the list source\<close>

text \<open>
  C3. For a non-empty collection \<open>getPage\<close> fails with \<open>OutOfRange\<close> when the page
  number is negative or \<open>pageNumber * perPage >= len(items)\<close>; with 12 items and 5 per
  page there are 3 pages, page 0 is \<open>items[0:5]\<close>, page 2 is \<open>items[10:12]\<close> and page 3
  fails.
\<close>

theorem list_get_page_out_of_range:
  "(entries \<noteq> [] \<and> (n < 0 \<or> n * int per_page \<ge> int (length entries)) \<longrightarrow>
      list_get_page entries per_page n = Inl IndexError)
   \<and> (length entries = 12 \<longrightarrow>
        list_get_max_pages entries 5 = 3
      \<and> list_get_page entries 5 0 = Inr (take 5 entries)
      \<and> list_get_page entries 5 2 = Inr (drop 10 entries)
      \<and> list_get_page entries 5 3 = Inl IndexError)"
  by (auto simp: list_get_page_def list_get_max_pages_def)

theorem list_get_page_out_of_range_witness:
  "[0::nat, 1, 2, 3, 4, 5, 6, 7, 8, 9, 10, 11] \<noteq> []
   \<and> ((-1::int) < 0 \<or> (-1) * int 5 \<ge> int (length [0::nat, 1, 2, 3, 4, 5, 6, 7, 8, 9, 10, 11]))
   \<and> list_get_page [0::nat, 1, 2, 3, 4, 5, 6, 7, 8, 9, 10, 11] 5 (-1) = Inl IndexError
   \<and> length [0::nat, 1, 2, 3, 4, 5, 6, 7, 8, 9, 10, 11] = 12
   \<and> list_get_page [0::nat, 1, 2, 3, 4, 5, 6, 7, 8, 9, 10, 11] 5 0 = Inr [0, 1, 2, 3, 4]
   \<and> list_get_page [0::nat, 1, 2, 3, 4, 5, 6, 7, 8, 9, 10, 11] 5 2 = Inr [10, 11]
   \<and> list_get_page [0::nat, 1, 2, 3, 4, 5, 6, 7, 8, 9, 10, 11] 5 3 = Inl IndexError"
  using list_get_page_out_of_range [of "[0::nat, 1, 2, 3, 4, 5, 6, 7, 8, 9, 10, 11]" "-1" 5]
  by simp

subsection \<open>C4: the page count\<close>

text \<open>
  C4. For every number of items and every \<open>perPage >= 1\<close> the page count of the list
  source, and so of a \<open>GuildMenuPageSource\<close>, is \<open>ceil(n / perPage)\<close>; for no items it
  is 0, and page 0 is then the empty slice, not an error.
\<close>

theorem list_get_max_pages_ceiling:
  "per_page \<ge> 1 \<Longrightarrow>
     list_get_max_pages entries per_page = \<lceil>real (length entries) / real per_page\<rceil>
     \<and> get_max_pages (GuildMenuPageSource data per_page)
          = Some \<lceil>real (length data) / real per_page\<rceil>
     \<and> (entries = [] \<longrightarrow>
           list_get_max_pages entries per_page = 0
         \<and> list_get_page entries per_page 0 = Inr [])"
proof -
  assume p: "per_page \<ge> 1"
  have c: "list_get_max_pages xs per_page = \<lceil>real (length xs) / real per_page\<rceil>"
    for xs :: "'c list"
    unfolding list_get_max_pages_def using p by (rule ceiling_div_nat)
  have "get_max_pages (GuildMenuPageSource data per_page)
          = Some \<lceil>real (length data) / real per_page\<rceil>"
    by (simp add: GuildMenuPageSource_def c)
  moreover have "entries = [] \<longrightarrow>
           list_get_max_pages entries per_page = 0
         \<and> list_get_page entries per_page 0 = Inr []"
    using p by (simp add: list_get_max_pages_def list_get_page_def)
  ultimately show ?thesis using c by simp
qed

theorem list_get_max_pages_ceiling_witness:
  "(5::nat) \<ge> 1
   \<and> list_get_max_pages [0::nat, 1, 2, 3, 4, 5, 6, 7, 8, 9, 10, 11] 5 = 3
   \<and> \<lceil>real (length [0::nat, 1, 2, 3, 4, 5, 6, 7, 8, 9, 10, 11]) / real (5::nat)\<rceil> = 3
   \<and> ([]::nat list) = []
   \<and> list_get_max_pages ([]::nat list) 5 = 0
   \<and> list_get_page ([]::nat list) 5 0 = Inr []"
proof -
  have h: "(5::nat) \<ge> 1" by simp
  have c: "\<lceil>real (length [0::nat, 1, 2, 3, 4, 5, 6, 7, 8, 9, 10, 11]) / real (5::nat)\<rceil> = 3"
    by (simp add: ceiling_eq_iff)
  show ?thesis
    using list_get_max_pages_ceiling [OF h, of "[0::nat, 1, 2, 3, 4, 5, 6, 7, 8, 9, 10, 11]" "[]"]
      list_get_max_pages_ceiling [OF h, of "[]::nat list" "[]"] c
    by simp
qed

subsection \<open>C5: the enablement of the controls\<close>

text \<open>
  C5, as the specification states it: after the labels are updated for page \<open>p\<close>,
  First and Previous are disabled iff \<open>p = 0\<close> and Next and Last are disabled iff the
  page count is known and \<open>p + 1 >= pageCount\<close>, for a known or unknown page count and in
  both modes. In \<open>src/pagination.py\<close> this fails in non-compact mode with an unknown
  page count: on page 0 Previous stays enabled.
\<close>

theorem previous_enabled_on_page_zero:
  "\<not> (go_to_previous_page_disabled
         (update_labels_pagination 0 (init unknown_source (Context 1 True) True False))
       \<longleftrightarrow> (0::int) = 0)"
  by (simp add: init_def fill_items_def unknown_source_def update_labels_pagination_def)

text \<open>
  C5, amended. With a known page count, in both files and both modes: First and Previous
  are disabled iff \<open>p = 0\<close>, Next is disabled iff \<open>p + 1 >= pageCount\<close>, and so is Last
  in non-compact mode; \<open>src/main.py\<close> raises nothing and leaves the same view as
  \<open>src/pagination.py\<close>. With an unknown page count in compact mode: First and Previous
  are disabled iff \<open>p = 0\<close> and Next is enabled, in both files. With an unknown page
  count in non-compact mode \<open>src/pagination.py\<close> disables First iff \<open>p = 0\<close>, enables
  Previous and Next and leaves Last as it was. First and Last are attached exactly when
  the source paginates and the view is not compact.
\<close>

theorem update_labels_enablement:
  "(get_max_pages (source v) = Some m \<longrightarrow>
      (go_to_first_page_disabled (update_labels_pagination p v) \<longleftrightarrow> p = 0)
    \<and> (go_to_previous_page_disabled (update_labels_pagination p v) \<longleftrightarrow> p = 0)
    \<and> (go_to_next_page_disabled (update_labels_pagination p v) \<longleftrightarrow> p + 1 \<ge> m)
    \<and> (\<not> compact_flag v \<longrightarrow>
          (go_to_last_page_disabled (update_labels_pagination p v) \<longleftrightarrow> p + 1 \<ge> m))
    \<and> update_labels_main p v = (None, update_labels_pagination p v))
   \<and> (get_max_pages (source v) = None \<and> compact_flag v \<longrightarrow>
      (go_to_first_page_disabled (update_labels_pagination p v) \<longleftrightarrow> p = 0)
    \<and> (go_to_previous_page_disabled (update_labels_pagination p v) \<longleftrightarrow> p = 0)
    \<and> \<not> go_to_next_page_disabled (update_labels_pagination p v)
    \<and> update_labels_main p v = (None, update_labels_pagination p v))
   \<and> (get_max_pages (source v) = None \<and> \<not> compact_flag v \<longrightarrow>
      (go_to_first_page_disabled (update_labels_pagination p v) \<longleftrightarrow> p = 0)
    \<and> \<not> go_to_previous_page_disabled (update_labels_pagination p v)
    \<and> \<not> go_to_next_page_disabled (update_labels_pagination p v)
    \<and> (go_to_last_page_disabled (update_labels_pagination p v) \<longleftrightarrow> go_to_last_page_disabled v))
   \<and> (Go_to_first_page \<in> set (children (init src ia chk cmp)) \<longleftrightarrow> is_paginating src \<and> \<not> cmp)
   \<and> (Go_to_last_page \<in> set (children (init src ia chk cmp)) \<longleftrightarrow> is_paginating src \<and> \<not> cmp)"
  by (auto simp: update_labels_main_def update_labels_pagination_def Let_def init_def fill_items_def
      split: option.splits)

text \<open>
  The three cases at concrete views: the last of three pages, and page 0 with an unknown
  count in compact and in non-compact mode.
\<close>

theorem update_labels_enablement_witness:
  "(get_max_pages (source (init known_source (Context 1 True) True False)) = Some 3
    \<and> \<not> compact_flag (init known_source (Context 1 True) True False)
    \<and> \<not> go_to_first_page_disabled
          (update_labels_pagination 2 (init known_source (Context 1 True) True False))
    \<and> go_to_next_page_disabled
          (update_labels_pagination 2 (init known_source (Context 1 True) True False))
    \<and> go_to_last_page_disabled
          (update_labels_pagination 2 (init known_source (Context 1 True) True False))
    \<and> update_labels_main 2 (init known_source (Context 1 True) True False)
        = (None, update_labels_pagination 2 (init known_source (Context 1 True) True False)))
   \<and> (get_max_pages (source (init unknown_source (Context 1 True) True True)) = None
    \<and> compact_flag (init unknown_source (Context 1 True) True True)
    \<and> go_to_previous_page_disabled
          (update_labels_pagination 0 (init unknown_source (Context 1 True) True True))
    \<and> \<not> go_to_next_page_disabled
          (update_labels_pagination 0 (init unknown_source (Context 1 True) True True)))
   \<and> (get_max_pages (source (init unknown_source (Context 1 True) True False)) = None
    \<and> \<not> compact_flag (init unknown_source (Context 1 True) True False)
    \<and> \<not> go_to_previous_page_disabled
          (update_labels_pagination 0 (init unknown_source (Context 1 True) True False)))"
proof -
  let ?k = "init known_source (Context 1 True) True False"
  let ?c = "init unknown_source (Context 1 True) True True"
  let ?u = "init unknown_source (Context 1 True) True False"
  have k: "get_max_pages (source ?k) = Some 3" "\<not> compact_flag ?k"
    by (simp_all add: init_def fill_items_def known_source_def)
  have c: "get_max_pages (source ?c) = None" "compact_flag ?c"
    by (simp_all add: init_def fill_items_def unknown_source_def)
  have u: "get_max_pages (source ?u) = None" "\<not> compact_flag ?u"
    by (simp_all add: init_def fill_items_def unknown_source_def)
  have 1: "\<not> go_to_first_page_disabled (update_labels_pagination 2 ?k)
    \<and> go_to_next_page_disabled (update_labels_pagination 2 ?k)
    \<and> go_to_last_page_disabled (update_labels_pagination 2 ?k)
    \<and> update_labels_main 2 ?k = (None, update_labels_pagination 2 ?k)"
    using update_labels_enablement [THEN conjunct1, of ?k 3 2] k by simp
  have 2: "go_to_previous_page_disabled (update_labels_pagination 0 ?c)
    \<and> \<not> go_to_next_page_disabled (update_labels_pagination 0 ?c)"
    using update_labels_enablement [THEN conjunct2, THEN conjunct1, of ?c 0] c by simp
  have 3: "\<not> go_to_previous_page_disabled (update_labels_pagination 0 ?u)"
    using update_labels_enablement [THEN conjunct2, THEN conjunct2, THEN conjunct1, of ?u 0] u
    by simp
  show ?thesis using k c u 1 2 3 by simp
qed

subsection \<open>C6: the guild formatter\<close>

text \<open>
  C6, as the specification states it: the formatter turns an entry whose invite is null
  into the line \<open>Beta: No invite available\<close>. \<open>format_page\<close> of \<open>src/main.py\<close> formats
  the second component as it is, so a null invite gives \<open>Beta: None\<close>.
\<close>

theorem format_page_null_invite:
  "description (format_page_main
      [(\<lparr>name = ''Alpha'', invites = [''http://inv/1'']\<rparr>, Some ''http://inv/1''),
       (\<lparr>name = ''Beta'', invites = []\<rparr>, None)])
    = ''Alpha: http://inv/1'' @ [newline, newline] @ ''Beta: None''
   \<and> description (format_page_main
      [(\<lparr>name = ''Alpha'', invites = [''http://inv/1'']\<rparr>, Some ''http://inv/1''),
       (\<lparr>name = ''Beta'', invites = []\<rparr>, None)])
    \<noteq> ''Alpha: http://inv/1'' @ [newline, newline] @ ''Beta: No invite available''"
  by (simp add: format_page_main_def newline_def)

text \<open>
  C6, amended. For every page slice \<open>format_page\<close> of \<open>src/main.py\<close> produces the line
  \<open>{guild.name}: {invite_link}\<close> for each entry, with the link formatted as it is,
  joins the lines with a blank line between them, and renders \<open>No guilds were found.\<close>
  for an empty slice (as \<open>src/menu.py\<close> does). \<open>No invite available\<close> is put in by
  \<open>servers_command\<close> when it builds the entries, so the guilds Alpha (with the invite
  \<open>http://inv/1\<close>) and Beta (without invites) render as
  \<open>Alpha: http://inv/1\<close>, a blank line, \<open>Beta: No invite available\<close>.
\<close>

theorem format_page_lines:
  "description (format_page_main entries) =
     (if entries = [] then ''No guilds were found.''
      else join [newline, newline]
             (map (\<lambda>entry. name (fst entry) @ '': '' @ py_str (snd entry)) entries))
   \<and> description (format_page_main (guilds_data guilds)) =
     (if guilds = [] then ''No guilds were found.''
      else join [newline, newline]
             (map (\<lambda>guild. name guild @ '': '' @
                     (case invites guild of [] \<Rightarrow> ''No invite available'' | url # _ \<Rightarrow> url))
                guilds))
   \<and> description (format_page_main (guilds_data alpha_beta)) =
       ''Alpha: http://inv/1'' @ [newline, newline] @ ''Beta: No invite available''
   \<and> format_page_menu [] = Inr (format_page_main [])"
proof (intro conjI)
  show "description (format_page_main entries) =
     (if entries = [] then ''No guilds were found.''
      else join [newline, newline]
             (map (\<lambda>entry. name (fst entry) @ '': '' @ py_str (snd entry)) entries))"
    by (rule description_format_page_main)
  show "description (format_page_main (guilds_data guilds)) =
     (if guilds = [] then ''No guilds were found.''
      else join [newline, newline]
             (map (\<lambda>guild. name guild @ '': '' @
                     (case invites guild of [] \<Rightarrow> ''No invite available'' | url # _ \<Rightarrow> url))
                guilds))"
    by (simp add: description_format_page_main guilds_data_def comp_def)
  show "description (format_page_main (guilds_data alpha_beta)) =
       ''Alpha: http://inv/1'' @ [newline, newline] @ ''Beta: No invite available''"
    by (simp add: format_page_main_def guilds_data_def alpha_beta_def newline_def)
  show "format_page_menu [] = Inr (format_page_main [])"
    by (simp add: format_page_menu_def format_page_main_def)
qed

theorem format_page_lines_witness:
  "[(\<lparr>name = ''Alpha'', invites = []\<rparr>, Some ''http://inv/1'')] \<noteq> []
   \<and> description (format_page_main [(\<lparr>name = ''Alpha'', invites = []\<rparr>, Some ''http://inv/1'')])
       = ''Alpha: http://inv/1''
   \<and> description (format_page_main []) = ''No guilds were found.''"
  using format_page_lines [THEN conjunct1,
      of "[(\<lparr>name = ''Alpha'', invites = []\<rparr>, Some ''http://inv/1'')]"]
    format_page_lines [THEN conjunct1, of "[]"]
  by simp

subsection \<open>C7: who may press the buttons\<close>

text \<open>
  C7. \<open>interaction_check\<close> returns true iff the acting user's id is the id of the user
  that the view was created for: the \<open>author.id\<close> of the Context, or the \<open>user.id\<close> of
  the Interaction, that was given to \<open>__init__\<close>. It never changes the view, and on
  every rejection it sends exactly one ephemeral message, \<open>This menu is not for you.\<close>.
  The id is fixed: \<open>__init__\<close> stores the invoking context as it is, and showing a
  page, \<open>start\<close>, the timeout and the Quit button leave it as it is.
\<close>

theorem interaction_check_owner_only:
  "(interaction v = Context a e \<longrightarrow>
      (fst (interaction_check v click) \<longleftrightarrow> user click = Some a))
   \<and> (interaction v = Interaction u e r \<longrightarrow>
      (fst (interaction_check v click) \<longleftrightarrow> user click = Some u))
   \<and> fst (snd (interaction_check v click)) = v
   \<and> snd (snd (interaction_check v click)) =
       (if fst (interaction_check v click) then []
        else [Response_send_message [(''content'', VStr ''This menu is not for you.'')] None True])
   \<and> interaction (init src ia chk cmp) = ia
   \<and> (upd = labels_pagination \<or> upd = labels_main \<longrightarrow>
        interaction (fst (snd (show_page upd v click n))) = interaction v
      \<and> interaction (fst (snd (show_checked_page upd v click n))) = interaction v
      \<and> interaction (fst (snd (start upd v content ephemeral m))) = interaction v)
   \<and> interaction (fst (snd (on_timeout v))) = interaction v
   \<and> interaction (fst (snd (stop_pages v))) = interaction v"
proof (intro conjI impI)
  assume "interaction v = Context a e"
  then show "fst (interaction_check v click) \<longleftrightarrow> user click = Some a"
    by (auto simp: interaction_check_def split: option.splits)
next
  assume "interaction v = Interaction u e r"
  then show "fst (interaction_check v click) \<longleftrightarrow> user click = Some u"
    by (auto simp: interaction_check_def split: option.splits)
next
  show "fst (snd (interaction_check v click)) = v"
    by (simp add: interaction_check_def split: option.splits)
  show "snd (snd (interaction_check v click)) =
       (if fst (interaction_check v click) then []
        else [Response_send_message [(''content'', VStr ''This menu is not for you.'')] None True])"
    by (simp add: interaction_check_def split: option.splits)
  show "interaction (init src ia chk cmp) = ia"
    by (simp add: init_def fill_items_def)
  show "interaction (fst (snd (on_timeout v))) = interaction v"
    by (simp add: on_timeout_def Let_def fields_fold_set_disabled split: option.splits)
  show "interaction (fst (snd (stop_pages v))) = interaction v"
    by (simp add: stop_pages_def)
next
  assume l: "upd = labels_pagination \<or> upd = labels_main"
  then show s: "interaction (fst (snd (show_page upd v click n))) = interaction v"
    by (intro interaction_show_page interaction_labels)
  from s show "interaction (fst (snd (show_checked_page upd v click n))) = interaction v"
    by (simp add: show_checked_page_def view_except_IndexError split: option.splits)
  from l show "interaction (fst (snd (start upd v content ephemeral m))) = interaction v"
    by (intro interaction_start interaction_labels)
qed

text \<open>
  A view created from the Context of user 42 accepts user 42 and rejects user 7; a view
  created from the Interaction of user 5 accepts user 5 and rejects user 42; a press
  without a user is rejected.
\<close>

theorem interaction_check_owner_only_witness:
  "interaction (init known_source (Context 42 True) True False) = Context 42 True
   \<and> fst (interaction_check (init known_source (Context 42 True) True False)
          \<lparr>user = Some 42, is_done = False\<rparr>)
   \<and> \<not> fst (interaction_check (init known_source (Context 42 True) True False)
          \<lparr>user = Some 7, is_done = False\<rparr>)
   \<and> snd (snd (interaction_check (init known_source (Context 42 True) True False)
          \<lparr>user = Some 7, is_done = False\<rparr>))
       = [Response_send_message [(''content'', VStr ''This menu is not for you.'')] None True]
   \<and> interaction (init known_source (Interaction 5 True False) True False)
       = Interaction 5 True False
   \<and> fst (interaction_check (init known_source (Interaction 5 True False) True False)
          \<lparr>user = Some 5, is_done = False\<rparr>)
   \<and> \<not> fst (interaction_check (init known_source (Interaction 5 True False) True False)
          \<lparr>user = Some 42, is_done = False\<rparr>)
   \<and> \<not> fst (interaction_check (init known_source (Interaction 5 True False) True False)
          \<lparr>user = None, is_done = False\<rparr>)
   \<and> interaction (fst (snd (show_checked_page labels_main
         (init known_source (Context 42 True) True False)
         \<lparr>user = Some 42, is_done = False\<rparr> 1))) = Context 42 True"
proof -
  let ?c = "init known_source (Context 42 True) True False"
  let ?i = "init known_source (Interaction 5 True False) True False"
  have c: "interaction ?c = Context 42 True"
    using interaction_check_owner_only [THEN conjunct2, THEN conjunct2, THEN conjunct2,
        THEN conjunct2, THEN conjunct1, of known_source "Context 42 True" True False] .
  have i: "interaction ?i = Interaction 5 True False"
    using interaction_check_owner_only [THEN conjunct2, THEN conjunct2, THEN conjunct2,
        THEN conjunct2, THEN conjunct1, of known_source "Interaction 5 True False" True False] .
  have 1: "fst (interaction_check ?c \<lparr>user = Some 42, is_done = False\<rparr>)"
    using interaction_check_owner_only [THEN conjunct1,
        of ?c 42 True "\<lparr>user = Some 42, is_done = False\<rparr>"] c by simp
  have 2: "\<not> fst (interaction_check ?c \<lparr>user = Some 7, is_done = False\<rparr>)"
    using interaction_check_owner_only [THEN conjunct1,
        of ?c 42 True "\<lparr>user = Some 7, is_done = False\<rparr>"] c by simp
  have 3: "snd (snd (interaction_check ?c \<lparr>user = Some 7, is_done = False\<rparr>))
       = [Response_send_message [(''content'', VStr ''This menu is not for you.'')] None True]"
    using interaction_check_owner_only [THEN conjunct2, THEN conjunct2, THEN conjunct2,
        THEN conjunct1, of ?c "\<lparr>user = Some 7, is_done = False\<rparr>"] 2 by simp
  have 4: "fst (interaction_check ?i \<lparr>user = Some 5, is_done = False\<rparr>)"
    using interaction_check_owner_only [THEN conjunct2, THEN conjunct1,
        of ?i 5 True False "\<lparr>user = Some 5, is_done = False\<rparr>"] i by simp
  have 5: "\<not> fst (interaction_check ?i \<lparr>user = Some 42, is_done = False\<rparr>)"
    using interaction_check_owner_only [THEN conjunct2, THEN conjunct1,
        of ?i 5 True False "\<lparr>user = Some 42, is_done = False\<rparr>"] i by simp
  have 6: "\<not> fst (interaction_check ?i \<lparr>user = None, is_done = False\<rparr>)"
    using interaction_check_owner_only [THEN conjunct2, THEN conjunct1,
        of ?i 5 True False "\<lparr>user = None, is_done = False\<rparr>"] i by simp
  have 7: "interaction (fst (snd (show_checked_page labels_main ?c
         \<lparr>user = Some 42, is_done = False\<rparr> 1))) = Context 42 True"
    using interaction_check_owner_only [THEN conjunct2, THEN conjunct2, THEN conjunct2,
        THEN conjunct2, THEN conjunct2, THEN conjunct1,
        of labels_main ?c "\<lparr>user = Some 42, is_done = False\<rparr>" 1] c by simp
  show ?thesis using c i 1 2 3 4 5 6 7 by simp
qed

subsection \<open>C8: the timeout\<close>

text \<open>
  C8, as the specification states it: the timeout handler does nothing when the live
  message no longer exists, also when it fires after the Quit button has completed.
  \<open>stop_pages\<close> deletes the message on the platform but leaves \<open>self.message\<close> set, so
  \<open>on_timeout\<close> on the stopped view disables the five controls and edits message 7.
\<close>

theorem on_timeout_after_stop:
  "stopped after_stop
   \<and> snd (snd (on_timeout after_stop)) =
       [Message_edit 7 []
          [(Go_to_first_page, True), (Go_to_previous_page, True), (Stop_pages, True),
           (Go_to_next_page, True), (Go_to_last_page, True)]]"
  by (simp add: after_stop_def stop_pages_def start_def init_def fill_items_def
      known_source_def three_pages_def page_text_def get_kwargs_from_page_def clashes_def
      labels_pagination_def update_labels_pagination_def on_timeout_def view_of_def)

text \<open>
  C8, amended. When a message is recorded in the view, the timeout handler disables every
  attached control and edits that message once, with all attached controls disabled; it
  deletes nothing and keeps the message, the controls and the current page. When no
  message is recorded (\<open>self.message is None\<close>) it does nothing and raises nothing.
  The Quit button does not clear the recorded message.
\<close>

theorem on_timeout_disables:
  "(message v = None \<longrightarrow> on_timeout v = (None, v, []))
   \<and> (message v = Some m \<longrightarrow>
        fst (on_timeout v) = None
      \<and> snd (snd (on_timeout v)) = [Message_edit m [] (map (\<lambda>c. (c, True)) (children v))]
      \<and> (\<forall>c \<in> set (children v). disabled (fst (snd (on_timeout v))) c)
      \<and> children (fst (snd (on_timeout v))) = children v
      \<and> message (fst (snd (on_timeout v))) = Some m
      \<and> current_page (fst (snd (on_timeout v))) = current_page v)
   \<and> message (fst (snd (stop_pages v))) = message v"
  by (auto simp: on_timeout_def stop_pages_def Let_def view_of_def
      disabled_fold_set_disabled fields_fold_set_disabled)

theorem on_timeout_disables_witness:
  "message (init known_source (Context 1 True) True False) = None
   \<and> on_timeout (init known_source (Context 1 True) True False)
       = (None, init known_source (Context 1 True) True False, [])
   \<and> message ((init known_source (Context 1 True) True True)\<lparr>message := Some 7\<rparr>) = Some 7
   \<and> snd (snd (on_timeout ((init known_source (Context 1 True) True True)\<lparr>message := Some 7\<rparr>)))
       = [Message_edit 7 []
            [(Go_to_previous_page, True), (Stop_pages, True), (Go_to_next_page, True)]]
   \<and> Stop_pages \<in> set (children ((init known_source (Context 1 True) True True)\<lparr>message := Some 7\<rparr>))
   \<and> stop_pages_disabled (fst (snd (on_timeout
         ((init known_source (Context 1 True) True True)\<lparr>message := Some 7\<rparr>))))"
  using on_timeout_disables [of "init known_source (Context 1 True) True False" 0]
    on_timeout_disables [of "(init known_source (Context 1 True) True True)\<lparr>message := Some 7\<rparr>" 7]
  by (simp add: init_def fill_items_def known_source_def)

subsection \<open>C9: the two versions of \<open>_update_labels\<close>\<close>

text \<open>
  C9, as stated: the two versions compute the same enablement of the five controls for
  every page number, known or unknown page count, and compact flag. On page 0, in
  non-compact mode with an unknown page count, \<open>src/main.py\<close> has disabled Previous
  (and then raises \<open>TypeError\<close>), while \<open>src/pagination.py\<close> enables it.
\<close>

theorem update_labels_versions_differ:
  "enablement (snd (update_labels_main 0 (init unknown_source (Context 1 True) True False)))
   \<noteq> enablement (update_labels_pagination 0 (init unknown_source (Context 1 True) True False))"
  by (simp add: init_def fill_items_def unknown_source_def enablement_def
      update_labels_pagination_def update_labels_main_def)

text \<open>
  C9, amended. Whenever the page count is known or the view is compact, the two versions
  leave the same view, so the same enablement of the five controls, for every page
  number, and \<open>src/main.py\<close> raises nothing.
\<close>

theorem update_labels_versions_agree:
  "get_max_pages (source v) \<noteq> None \<or> compact_flag v \<Longrightarrow>
     update_labels_main p v = (None, update_labels_pagination p v)
     \<and> enablement (snd (update_labels_main p v)) = enablement (update_labels_pagination p v)"
  by (auto simp: update_labels_main_def update_labels_pagination_def enablement_def Let_def
      split: option.splits)

theorem update_labels_versions_agree_witness:
  "get_max_pages (source (init known_source (Context 1 True) True False)) \<noteq> None
   \<and> update_labels_main 2 (init known_source (Context 1 True) True False)
       = (None, update_labels_pagination 2 (init known_source (Context 1 True) True False))
   \<and> enablement (update_labels_pagination 2 (init known_source (Context 1 True) True False))
       = [False, False, False, True, True]"
  using update_labels_versions_agree [of "init known_source (Context 1 True) True False" 2]
  by (simp add: init_def fill_items_def known_source_def enablement_def
      update_labels_pagination_def)

subsection \<open>C10: the content passed to \<open>start\<close>\<close>

text \<open>
  C10, as stated: the content passed to \<open>start\<close> is in the first message only when
  \<open>format_page\<close> returns a mapping without the key \<open>content\<close>. It is also there when
  \<open>format_page\<close> returns a value that is neither a dict, a str nor an Embed: the
  keyword arguments are then empty and \<open>setdefault\<close> adds the content.
\<close>

theorem start_content_not_only_dict:
  "format_page other_source 0 = Inr FOther
   \<and> snd (snd (start labels_pagination (init other_source (Context 1 True) True False)
        (Some ''hi'') False 7))
     = [Context_send [(''content'', VStr ''hi'')]
          (Some [(Go_to_first_page, True), (Go_to_previous_page, True), (Stop_pages, False),
                 (Go_to_next_page, False), (Go_to_last_page, False)]) False]"
  by (simp add: start_def init_def fill_items_def other_source_def three_pages_def
      page_other_def get_kwargs_from_page_def setdefault_def clashes_def
      labels_pagination_def update_labels_pagination_def view_of_def)

text \<open>
  C10, amended. When \<open>start\<close> is called with a non-empty content and reaches the send
  of page 0, the keyword arguments of the page are: for a dict without the key
  \<open>content\<close>, the dict with the content added; for a dict with that key, the dict as it
  is; for a str or an Embed, the two entries \<open>content\<close> and \<open>embed\<close> built from the
  value, so the content passed to \<open>start\<close> is dropped; for any other value, the content
  alone. The message is sent with these keyword arguments and recorded, unless they
  carry a keyword that the send also passes by name (\<open>view\<close> or \<open>ephemeral\<close>, or
  \<open>wait\<close> or \<open>ephemeral\<close> on the follow-up path): then the call raises \<open>TypeError\<close>
  and no page is sent. Only a dict can carry such a keyword.
\<close>

theorem start_content:
  assumes "get_page (source v) 0 = Inr page"
    and "format_page (source v) page = Inr f"
    and "upd 0 v = (None, v')"
    and "\<not> (check_embeds v \<and> \<not> embed_links (interaction v) \<and> is_Interaction (interaction v))"
    and "c \<noteq> []"
    and "kw = (case f of
                 FDict d \<Rightarrow> (if map_of d ''content'' = None then d @ [(''content'', VStr c)] else d)
               | FStr s \<Rightarrow> [(''content'', VStr s), (''embed'', VNone)]
               | FEmbed e \<Rightarrow> [(''embed'', VEmbed e), (''content'', VNone)]
               | FOther \<Rightarrow> [(''content'', VStr c)])"
  shows "(\<not> clashes (send_keywords (interaction v')) kw \<longrightarrow>
            fst (start upd v (Some c) ephemeral m) = None
          \<and> call_kwargs (last (snd (snd (start upd v (Some c) ephemeral m)))) = kw
          \<and> message (fst (snd (start upd v (Some c) ephemeral m))) = Some m)
       \<and> (clashes (send_keywords (interaction v')) kw \<longrightarrow>
            fst (start upd v (Some c) ephemeral m) = Some TypeError
          \<and> snd (snd (start upd v (Some c) ephemeral m)) =
              (if check_embeds v \<and> \<not> embed_links (interaction v)
               then [Context_send denial None True] else [])
          \<and> message (fst (snd (start upd v (Some c) ephemeral m))) = message v')
       \<and> ((\<forall>d. f \<noteq> FDict d) \<longrightarrow> \<not> clashes (send_keywords (interaction v')) kw)"
proof -
  let ?kw0 = "case f of FDict d \<Rightarrow> d
               | FStr s \<Rightarrow> [(''content'', VStr s), (''embed'', VNone)]
               | FEmbed e \<Rightarrow> [(''embed'', VEmbed e), (''content'', VNone)]
               | FOther \<Rightarrow> []"
  have k0: "get_kwargs_from_page v page = Inr ?kw0"
    using assms(2) by (simp add: get_kwargs_from_page_def split: formatted.splits)
  have k: "setdefault ''content'' (VStr c) ?kw0 = kw"
    using assms(6) by (cases f) (auto simp: setdefault_def split: option.splits)
  have s: "start upd v (Some c) ephemeral m =
     (let calls = (if check_embeds v \<and> \<not> embed_links (interaction v)
                   then [Context_send denial None True] else [])
      in if clashes (send_keywords (interaction v')) kw then (Some TypeError, v', calls)
         else (case interaction v' of
                 Interaction _ _ responded \<Rightarrow>
                   if \<not> responded then
                     (None, v'\<lparr>message := Some m\<rparr>,
                      calls @ [Response_send_message kw (Some (view_of v')) ephemeral])
                   else (None, v'\<lparr>message := Some m\<rparr>, calls @ [Followup_send kw None ephemeral])
               | Context _ _ \<Rightarrow>
                   (None, v'\<lparr>message := Some m\<rparr>,
                    calls @ [Context_send kw (Some (view_of v')) ephemeral])))"
    using assms(1,3,4,5) k0 k by (auto simp: start_def Let_def)
  have d: "(\<forall>d. f \<noteq> FDict d) \<longrightarrow> \<not> clashes (send_keywords (interaction v')) kw"
    using assms(6) by (cases f; cases "interaction v'") (simp_all add: clashes_def)
  show ?thesis
    using d by (cases "interaction v'") (simp_all add: s Let_def)
qed

text \<open>
  Three runs with the content \<open>hi\<close>: a str page drops it, a dict page without the key
  \<open>content\<close> gets it, and a dict page with the key \<open>view\<close> raises and sends nothing.
\<close>

theorem start_content_witness:
  "(get_page (source (init known_source (Context 1 True) True False)) 0 = Inr 0
    \<and> format_page (source (init known_source (Context 1 True) True False)) 0 = Inr (FStr ''page'')
    \<and> ''hi'' \<noteq> []
    \<and> call_kwargs (last (snd (snd (start labels_pagination
         (init known_source (Context 1 True) True False) (Some ''hi'') False 7))))
       = [(''content'', VStr ''page''), (''embed'', VNone)])
   \<and> (format_page (source (init dict_source (Context 1 True) True False)) 0
         = Inr (FDict [(''embed'', VNone)])
    \<and> call_kwargs (last (snd (snd (start labels_pagination
         (init dict_source (Context 1 True) True False) (Some ''hi'') False 7))))
       = [(''embed'', VNone), (''content'', VStr ''hi'')]
    \<and> message (fst (snd (start labels_pagination
         (init dict_source (Context 1 True) True False) (Some ''hi'') False 7))) = Some 7)
   \<and> (format_page (source (init view_dict_source (Context 1 True) True False)) 0
         = Inr (FDict [(''view'', VNone)])
    \<and> clashes (send_keywords (Context 1 True)) [(''view'', VNone), (''content'', VStr ''hi'')]
    \<and> fst (start labels_pagination
         (init view_dict_source (Context 1 True) True False) (Some ''hi'') False 7) = Some TypeError
    \<and> snd (snd (start labels_pagination
         (init view_dict_source (Context 1 True) True False) (Some ''hi'') False 7)) = [])"
proof -
  let ?k = "init known_source (Context 1 True) True False"
  let ?d = "init dict_source (Context 1 True) True False"
  let ?w = "init view_dict_source (Context 1 True) True False"
  have g: "get_page (source ?k) 0 = Inr 0" "get_page (source ?d) 0 = Inr 0"
    "get_page (source ?w) 0 = Inr 0"
    by (simp_all add: init_def fill_items_def known_source_def dict_source_def
        view_dict_source_def three_pages_def)
  have f: "format_page (source ?k) 0 = Inr (FStr ''page'')"
    "format_page (source ?d) 0 = Inr (FDict [(''embed'', VNone)])"
    "format_page (source ?w) 0 = Inr (FDict [(''view'', VNone)])"
    by (simp_all add: init_def fill_items_def known_source_def dict_source_def
        view_dict_source_def page_text_def page_dict_def page_view_dict_def)
  have u: "labels_pagination 0 v = (None, update_labels_pagination 0 v)" for v :: "int view"
    by (simp add: labels_pagination_def)
  have e: "\<not> (check_embeds ?k \<and> \<not> embed_links (interaction ?k) \<and> is_Interaction (interaction ?k))"
    "\<not> (check_embeds ?d \<and> \<not> embed_links (interaction ?d) \<and> is_Interaction (interaction ?d))"
    "\<not> (check_embeds ?w \<and> \<not> embed_links (interaction ?w) \<and> is_Interaction (interaction ?w))"
    by (simp_all add: init_def fill_items_def)
  have c: "''hi'' \<noteq> []" by simp
  have i: "interaction (update_labels_pagination 0 ?k) = Context 1 True"
    "interaction (update_labels_pagination 0 ?d) = Context 1 True"
    "interaction (update_labels_pagination 0 ?w) = Context 1 True"
    by (simp_all add: fields_update_labels_pagination init_def fill_items_def)
  have x: "clashes (send_keywords (Context 1 True)) [(''view'', VNone), (''content'', VStr ''hi'')]"
    "\<not> clashes (send_keywords (Context 1 True)) [(''content'', VStr ''page''), (''embed'', VNone)]"
    "\<not> clashes (send_keywords (Context 1 True)) [(''embed'', VNone), (''content'', VStr ''hi'')]"
    by (simp_all add: clashes_def)
  have 1: "call_kwargs (last (snd (snd (start labels_pagination ?k (Some ''hi'') False 7))))
       = [(''content'', VStr ''page''), (''embed'', VNone)]"
    using start_content [of ?k 0 "FStr ''page''" labels_pagination
        "update_labels_pagination 0 ?k" "''hi''"
        "[(''content'', VStr ''page''), (''embed'', VNone)]" False 7,
        OF g(1) f(1) u e(1) c, THEN conjunct1] i(1) x(2)
    by simp
  have 2: "call_kwargs (last (snd (snd (start labels_pagination ?d (Some ''hi'') False 7))))
       = [(''embed'', VNone), (''content'', VStr ''hi'')]
     \<and> message (fst (snd (start labels_pagination ?d (Some ''hi'') False 7))) = Some 7"
    using start_content [of ?d 0 "FDict [(''embed'', VNone)]" labels_pagination
        "update_labels_pagination 0 ?d" "''hi''"
        "[(''embed'', VNone), (''content'', VStr ''hi'')]" False 7,
        OF g(2) f(2) u e(2) c, THEN conjunct1] i(2) x(3)
    by simp
  have 3: "fst (start labels_pagination ?w (Some ''hi'') False 7) = Some TypeError
     \<and> snd (snd (start labels_pagination ?w (Some ''hi'') False 7)) = []"
    using start_content [of ?w 0 "FDict [(''view'', VNone)]" labels_pagination
        "update_labels_pagination 0 ?w" "''hi''"
        "[(''view'', VNone), (''content'', VStr ''hi'')]" False 7,
        OF g(3) f(3) u e(3) c, THEN conjunct2, THEN conjunct1] i(3) x(1)
    by (simp add: init_def fill_items_def)
  show ?thesis using g f c x 1 2 3 by simp
qed

end
